theory Spec2Isabelle
  imports Main "HOL-Library.Sublist" "HOL-Library.Word"
begin

section \<open>Flask TTS server: a shallow embedding of \<open>tts.py\<close>\<close>

text \<open>
  The module \<open>tts.py\<close> builds one Google Cloud Text-to-Speech client at import time
  (\<open>create_tts_client\<close>) and serves four routes: \<open>/health\<close>, \<open>/tts\<close>, \<open>/voices\<close> and
  \<open>/supported-languages\<close>. Each handler is modelled as a function from what it reads
  (the module-level \<open>client\<close>, the request, the outcome of the library calls it makes)
  to the response it returns and the effects it leaves behind (the calls made to the
  provider, the files written to the temporary directory).

  What lies outside \<open>tts.py\<close> is a parameter of the model: the outcome of
  \<open>request.get_json()\<close>, the message constructors and the client object of the provider's
  library, the credentials library, and the calls on the temporary file and
  \<open>send_file\<close>. An exception is a value: \<open>Inl m\<close> stands for a raise whose \<open>str(e)\<close> is
  \<open>m\<close>, \<open>Inr v\<close> for a normal return of \<open>v\<close>. Logging is left out: it changes no
  response.
\<close>

subsection \<open>Python strings\<close>

text \<open>
  A Python \<open>str\<close> is a sequence of Unicode code points and \<open>len\<close> counts code points,
  so a \<open>str\<close> is a list of code-point numbers. \<open>lit\<close> turns an ASCII literal of the
  source into such a list.
\<close>

type_synonym pystr = "nat list"

type_synonym bytes = "8 word list"

definition lit :: "string \<Rightarrow> pystr" where
  "lit s = map of_char s"

text \<open>The characters the source writes with an escape: \<open>'\\'\<close>, \<open>'\n'\<close> and the quote.\<close>

definition backslash :: nat where
  "backslash = 92"

definition newline :: nat where
  "newline = 10"

definition apostrophe :: nat where
  "apostrophe = 39"

text \<open>\<open>sub in s\<close> on strings: \<open>sub\<close> occurs in \<open>s\<close> as a contiguous run.\<close>

fun str_in :: "pystr \<Rightarrow> pystr \<Rightarrow> bool" where
  "str_in sub [] = (sub = [])"
| "str_in sub (c # cs) = (prefix sub (c # cs) \<or> str_in sub cs)"

text \<open>
  \<open>s.replace(old, new)\<close>: the occurrences of \<open>old\<close> are found from the left and do not
  overlap. For an empty \<open>old\<close> Python puts \<open>new\<close> before every character and at the end.
\<close>

function str_replace :: "pystr \<Rightarrow> pystr \<Rightarrow> pystr \<Rightarrow> pystr" where
  "str_replace old new s =
     (if old = [] then new @ concat (map (\<lambda>c. c # new) s)
      else if s = [] then []
      else if prefix old s then new @ str_replace old new (drop (length old) s)
      else hd s # str_replace old new (tl s))"
  by pat_completeness auto
termination
  by (relation "measure (\<lambda>(old, new, s). length s)") auto

declare str_replace.simps [simp del]

text \<open>
  \<open>s.strip()\<close> removes leading and trailing whitespace, which for \<open>str\<close> is every code
  point with \<open>isspace()\<close> true.
\<close>

definition isspace :: "nat \<Rightarrow> bool" where
  "isspace c \<longleftrightarrow>
     (9 \<le> c \<and> c \<le> 13) \<or> (28 \<le> c \<and> c \<le> 32) \<or> c = 133 \<or> c = 160 \<or> c = 5760 \<or>
     (8192 \<le> c \<and> c \<le> 8202) \<or> c = 8232 \<or> c = 8233 \<or> c = 8239 \<or> c = 8287 \<or> c = 12288"

definition strip :: "pystr \<Rightarrow> pystr" where
  "strip s = rev (dropWhile isspace (rev (dropWhile isspace s)))"

subsection \<open>JSON values as Python objects\<close>

text \<open>
  What \<open>request.get_json()\<close> returns and what \<open>jsonify\<close> takes. \<open>JObj kvs\<close> is a Python
  \<open>dict\<close>: \<open>kvs\<close> lists its items and a key is looked up with \<open>map_of\<close>. A float is
  kept as mantissa and binary exponent; the handlers only ask whether it is zero and
  what its type is, so \<open>nan\<close> and the infinities behave as any non-zero float does.
\<close>

datatype json =
    JNull
  | JBool bool
  | JInt int
  | JFloat int int
  | JStr pystr
  | JArr "json list"
  | JObj "(pystr \<times> json) list"

text \<open>\<open>type(v).__name__\<close>, as it appears in the message of an \<open>AttributeError\<close>.\<close>

fun type_name :: "json \<Rightarrow> pystr" where
  "type_name JNull = lit ''NoneType''"
| "type_name (JBool b) = lit ''bool''"
| "type_name (JInt n) = lit ''int''"
| "type_name (JFloat m e) = lit ''float''"
| "type_name (JStr s) = lit ''str''"
| "type_name (JArr xs) = lit ''list''"
| "type_name (JObj kvs) = lit ''dict''"

text \<open>Truth value of an object, as \<open>not data\<close> tests it.\<close>

fun truthy :: "json \<Rightarrow> bool" where
  "truthy JNull = False"
| "truthy (JBool b) = b"
| "truthy (JInt n) = (n \<noteq> 0)"
| "truthy (JFloat m e) = (m \<noteq> 0)"
| "truthy (JStr s) = (s \<noteq> [])"
| "truthy (JArr xs) = (xs \<noteq> [])"
| "truthy (JObj kvs) = (kvs \<noteq> [])"

text \<open>\<open>str(e)\<close> of the \<open>AttributeError\<close> raised by \<open>obj.attr\<close> when \<open>obj\<close> has no \<open>attr\<close>.\<close>

definition attribute_error :: "json \<Rightarrow> string \<Rightarrow> pystr" where
  "attribute_error v attr =
     [apostrophe] @ type_name v @ [apostrophe] @ lit '' object has no attribute '' @
     [apostrophe] @ lit attr @ [apostrophe]"

text \<open>\<open>data.get(key, default)\<close>: only a \<open>dict\<close> has \<open>get\<close>.\<close>

definition dict_get :: "json \<Rightarrow> pystr \<Rightarrow> json \<Rightarrow> pystr + json" where
  "dict_get data key dflt =
     (case data of
        JObj kvs \<Rightarrow> Inr (case map_of kvs key of None \<Rightarrow> dflt | Some v \<Rightarrow> v)
      | _ \<Rightarrow> Inl (attribute_error data ''get''))"

text \<open>\<open>v.strip()\<close>: only a \<open>str\<close> has \<open>strip\<close>.\<close>

definition obj_strip :: "json \<Rightarrow> pystr + pystr" where
  "obj_strip v =
     (case v of
        JStr s \<Rightarrow> Inr (strip s)
      | _ \<Rightarrow> Inl (attribute_error v ''strip''))"

subsection \<open>Responses\<close>

text \<open>
  \<open>jsonify(obj), code\<close> is a JSON response with that status (200 when the handler gives
  none); \<open>send_file\<close> is a 200 response whose body is the content of the file.
\<close>

datatype response =
    JsonResponse nat json
  | FileResponse pystr pystr bool pystr bytes

fun status :: "response \<Rightarrow> nat" where
  "status (JsonResponse code obj) = code"
| "status (FileResponse path mimetype as_attachment download_name content) = 200"

definition error_body :: "pystr \<Rightarrow> json" where
  "error_body msg = JObj [(lit ''error'', JStr msg)]"

subsection \<open>The provider's library\<close>

text \<open>
  The handlers reach the provider through \<open>google.cloud.texttospeech\<close>: the three
  message constructors that \<open>text_to_speech\<close> calls at lines 112, 115 and 121, and the
  client object. A constructor returns the message it built or raises; it is given the
  trimmed text, and the language code and the voice name as the request gave them,
  whatever their type. The module-level \<open>client\<close> is the object returned by
  \<open>texttospeech.TextToSpeechClient\<close>, or \<open>None\<close>. \<open>client_synthesize_speech c input voice
  audio_config\<close> stands for \<open>client.synthesize_speech(...)\<close> of lines 129 to 133 followed by
  \<open>response.audio_content\<close>; \<open>client_list_voices c lc\<close> stands for
  \<open>client.list_voices(language_code=lc)\<close> and returns \<open>voices.voices\<close>.
\<close>

datatype audio_encoding = MP3

record ('i, 'v, 'a) texttospeech =
  SynthesisInput :: "pystr \<Rightarrow> pystr + 'i"
  VoiceSelectionParams :: "json \<Rightarrow> json \<Rightarrow> pystr + 'v"
  AudioConfig :: "audio_encoding \<Rightarrow> json \<Rightarrow> json \<Rightarrow> json \<Rightarrow> pystr + 'a"

record voice =
  name :: pystr
  language_codes :: "pystr list"
  ssml_gender :: pystr
  natural_sample_rate_hertz :: int

record ('i, 'v, 'a) client =
  client_synthesize_speech :: "'i \<Rightarrow> 'v \<Rightarrow> 'a \<Rightarrow> pystr + bytes"
  client_list_voices :: "pystr \<Rightarrow> pystr + voice list"

subsection \<open>\<open>create_tts_client\<close>\<close>

text \<open>
  \<open>os.getenv\<close> is a map from variable names to values. The dictionary
  \<open>credentials_info\<close> is built first; then the required variables are checked; then
  \<open>service_account.Credentials.from_service_account_info\<close> and
  \<open>texttospeech.TextToSpeechClient\<close> are called, both parameters here. Every exception
  ends in \<open>return None\<close>.
\<close>

type_synonym environ = "pystr \<rightharpoonup> pystr"

record credentials_info =
  cred_type :: pystr
  project_id :: "pystr option"
  private_key_id :: "pystr option"
  private_key :: pystr
  client_email :: "pystr option"
  client_id :: "pystr option"
  auth_uri :: "pystr option"
  token_uri :: "pystr option"
  auth_provider_x509_cert_url :: "pystr option"
  client_x509_cert_url :: "pystr option"
  universe_domain :: "pystr option"

text \<open>\<open>x or ""\<close> for \<open>x\<close> a string or \<open>None\<close>.\<close>

definition or_empty :: "pystr option \<Rightarrow> pystr" where
  "or_empty x = (case x of None \<Rightarrow> [] | Some s \<Rightarrow> (if s = [] then [] else s))"

definition build_credentials_info :: "environ \<Rightarrow> credentials_info" where
  "build_credentials_info getenv =
     \<lparr> cred_type = lit ''service_account'',
       project_id = getenv (lit ''GOOGLE_CLOUD_PROJECT_ID''),
       private_key_id = getenv (lit ''GOOGLE_CLOUD_PRIVATE_KEY_ID''),
       private_key =
         str_replace (backslash # lit ''n'') [newline]
           (or_empty (getenv (lit ''GOOGLE_CLOUD_PRIVATE_KEY''))),
       client_email = getenv (lit ''GOOGLE_CLOUD_CLIENT_EMAIL''),
       client_id = getenv (lit ''GOOGLE_CLIENT_ID''),
       auth_uri = getenv (lit ''GOOGLE_AUTH_URI''),
       token_uri = getenv (lit ''GOOGLE_TOKEN_URI''),
       auth_provider_x509_cert_url = getenv (lit ''GOOGLE_AUTH_PROVIDER_x509_CERT_URL''),
       client_x509_cert_url = getenv (lit ''GOOGLE_CLIENT_x509_CERT_URL''),
       universe_domain = getenv (lit ''GOOGLE_UNIVERSE_DOMAIN'') \<rparr>"

definition required_vars :: "pystr list" where
  "required_vars =
     [lit ''GOOGLE_CLOUD_PROJECT_ID'',
      lit ''GOOGLE_CLOUD_PRIVATE_KEY'',
      lit ''GOOGLE_CLOUD_CLIENT_EMAIL'']"

text \<open>\<open>not os.getenv(var)\<close>: the variable is unset or set to the empty string.\<close>

definition not_set :: "environ \<Rightarrow> pystr \<Rightarrow> bool" where
  "not_set getenv var = (case getenv var of None \<Rightarrow> True | Some s \<Rightarrow> s = [])"

definition missing_vars :: "environ \<Rightarrow> pystr list" where
  "missing_vars getenv = filter (not_set getenv) required_vars"

definition create_tts_client ::
  "(credentials_info \<Rightarrow> pystr + 'cred) \<Rightarrow> ('cred \<Rightarrow> pystr + ('i, 'v, 'a) client) \<Rightarrow>
   environ \<Rightarrow> ('i, 'v, 'a) client option"
where
  "create_tts_client from_service_account_info TextToSpeechClient getenv =
     (let info = build_credentials_info getenv in
      if missing_vars getenv \<noteq> [] then None
      else
        (case from_service_account_info info of
           Inl e \<Rightarrow> None
         | Inr credentials \<Rightarrow>
             (case TextToSpeechClient credentials of
                Inl e \<Rightarrow> None
              | Inr c \<Rightarrow> Some c)))"

subsection \<open>\<open>GET /health\<close>\<close>

definition health_check :: "('i, 'v, 'a) client option \<Rightarrow> response" where
  "health_check cl =
     JsonResponse 200
       (JObj [(lit ''status'', JStr (lit ''healthy'')),
              (lit ''service'', JStr (lit ''Flask TTS API'')),
              (lit ''tts_available'', JBool (cl \<noteq> None))])"

subsection \<open>\<open>POST /tts\<close>\<close>

text \<open>
  The result of a request: the response, the calls made to \<open>client.synthesize_speech\<close>
  (the three messages it was given) and the temporary directory after the request, as a
  map from path to content.
\<close>

type_synonym tmpdir = "pystr \<rightharpoonup> bytes"

record ('r, 'call) handled =
  returned :: 'r
  provider_calls :: "'call list"
  tmp_files :: tmpdir

text \<open>
  The calls of lines 136 to 148 on the temporary file. \<open>NamedTemporaryFile delete suffix\<close>
  creates the file and returns its path, or raises and creates none. \<open>tmp_file_write\<close> is
  \<open>tmp_file.write\<close>, \<open>tmp_file_close\<close> is the close at the end of the \<open>with\<close> block (it
  runs also when the write raised, and a raise of the close is then the exception that
  leaves the block), \<open>left_on_disk\<close> is what the file holds when one of the two raised,
  and \<open>send_file\<close> is the Flask call, which answers with the content of the file or
  raises. The file is opened with \<open>delete=False\<close> and the handler removes it nowhere, so
  from its creation on the file stays under its path.
\<close>

record file_io =
  NamedTemporaryFile :: "bool \<Rightarrow> pystr \<Rightarrow> pystr + pystr"
  tmp_file_write :: "bytes \<Rightarrow> pystr + unit"
  tmp_file_close :: "pystr + unit"
  left_on_disk :: "bytes \<Rightarrow> bytes"
  send_file :: "pystr \<Rightarrow> pystr \<Rightarrow> bool \<Rightarrow> pystr \<Rightarrow> pystr + unit"

text \<open>
  Lines 111 to 148 of the \<open>try\<close>, once the text is validated: the three messages are
  built, the provider is called, the audio is written to a temporary file and the file
  is sent. A call is recorded only when \<open>client.synthesize_speech\<close> is reached. The
  arguments of \<open>AudioConfig\<close> are the encoding and the floats \<open>1.0\<close>, \<open>0.0\<close> and \<open>0.0\<close>
  of the speaking rate, the pitch and the gain.
\<close>

definition tts_synthesize ::
  "('i, 'v, 'a) client \<Rightarrow> ('i, 'v, 'a) texttospeech \<Rightarrow> file_io \<Rightarrow> tmpdir \<Rightarrow>
   pystr \<Rightarrow> json \<Rightarrow> json \<Rightarrow> (pystr + response, 'i \<times> 'v \<times> 'a) handled"
where
  "tts_synthesize c lib io files text_arg language_code voice_name =
     (case SynthesisInput lib text_arg of
        Inl e \<Rightarrow> \<lparr> returned = Inl e, provider_calls = [], tmp_files = files \<rparr>
      | Inr synthesis_input \<Rightarrow>
     (case VoiceSelectionParams lib language_code voice_name of
        Inl e \<Rightarrow> \<lparr> returned = Inl e, provider_calls = [], tmp_files = files \<rparr>
      | Inr voice \<Rightarrow>
     (case AudioConfig lib MP3 (JFloat 1 0) (JFloat 0 0) (JFloat 0 0) of
        Inl e \<Rightarrow> \<lparr> returned = Inl e, provider_calls = [], tmp_files = files \<rparr>
      | Inr audio_config \<Rightarrow>
     (case client_synthesize_speech c synthesis_input voice audio_config of
        Inl e \<Rightarrow>
          \<lparr> returned = Inl e,
            provider_calls = [(synthesis_input, voice, audio_config)], tmp_files = files \<rparr>
      | Inr audio_content \<Rightarrow>
     (case NamedTemporaryFile io False (lit ''.mp3'') of
        Inl e \<Rightarrow>
          \<lparr> returned = Inl e,
            provider_calls = [(synthesis_input, voice, audio_config)], tmp_files = files \<rparr>
      | Inr tmp_file_path \<Rightarrow>
     (case tmp_file_write io audio_content of
        Inl e \<Rightarrow>
          \<lparr> returned = Inl (case tmp_file_close io of Inl e' \<Rightarrow> e' | Inr u \<Rightarrow> e),
            provider_calls = [(synthesis_input, voice, audio_config)],
            tmp_files = files(tmp_file_path \<mapsto> left_on_disk io audio_content) \<rparr>
      | Inr u \<Rightarrow>
     (case tmp_file_close io of
        Inl e \<Rightarrow>
          \<lparr> returned = Inl e,
            provider_calls = [(synthesis_input, voice, audio_config)],
            tmp_files = files(tmp_file_path \<mapsto> left_on_disk io audio_content) \<rparr>
      | Inr u \<Rightarrow>
     (case send_file io tmp_file_path (lit ''audio/mpeg'') False (lit ''speech.mp3'') of
        Inl e \<Rightarrow>
          \<lparr> returned = Inl e,
            provider_calls = [(synthesis_input, voice, audio_config)],
            tmp_files = files(tmp_file_path \<mapsto> audio_content) \<rparr>
      | Inr u \<Rightarrow>
          \<lparr> returned = Inr (FileResponse tmp_file_path (lit ''audio/mpeg'') False
              (lit ''speech.mp3'') audio_content),
            provider_calls = [(synthesis_input, voice, audio_config)],
            tmp_files = files(tmp_file_path \<mapsto> audio_content) \<rparr>))))))))"

text \<open>
  The body of the \<open>try\<close>, lines 85 to 148. \<open>got_json\<close> is the outcome of
  \<open>request.get_json()\<close>.
\<close>

definition tts_try ::
  "('i, 'v, 'a) client option \<Rightarrow> ('i, 'v, 'a) texttospeech \<Rightarrow> pystr + json \<Rightarrow> file_io \<Rightarrow>
   tmpdir \<Rightarrow> (pystr + response, 'i \<times> 'v \<times> 'a) handled"
where
  "tts_try cl lib got_json io files =
     (case cl of
        None \<Rightarrow>
          \<lparr> returned = Inr (JsonResponse 503 (error_body (lit
              ''Text-to-Speech service is not available. Please check your Google Cloud configuration.''))),
            provider_calls = [], tmp_files = files \<rparr>
      | Some c \<Rightarrow>
     (case got_json of
        Inl e \<Rightarrow> \<lparr> returned = Inl e, provider_calls = [], tmp_files = files \<rparr>
      | Inr data \<Rightarrow>
     if \<not> truthy data then
       \<lparr> returned = Inr (JsonResponse 400 (error_body (lit ''No JSON data provided''))),
         provider_calls = [], tmp_files = files \<rparr>
     else
     (case dict_get data (lit ''text'') (JStr []) of
        Inl e \<Rightarrow> \<lparr> returned = Inl e, provider_calls = [], tmp_files = files \<rparr>
      | Inr text_field \<Rightarrow>
     (case obj_strip text_field of
        Inl e \<Rightarrow> \<lparr> returned = Inl e, provider_calls = [], tmp_files = files \<rparr>
      | Inr text_arg \<Rightarrow>
     (case dict_get data (lit ''languageCode'') (JStr (lit ''en-US'')) of
        Inl e \<Rightarrow> \<lparr> returned = Inl e, provider_calls = [], tmp_files = files \<rparr>
      | Inr language_code \<Rightarrow>
     (case dict_get data (lit ''voiceName'') (JStr (lit ''en-US-Wavenet-D'')) of
        Inl e \<Rightarrow> \<lparr> returned = Inl e, provider_calls = [], tmp_files = files \<rparr>
      | Inr voice_name \<Rightarrow>
     if text_arg = [] then
       \<lparr> returned = Inr (JsonResponse 400 (error_body (lit ''Text is required''))),
         provider_calls = [], tmp_files = files \<rparr>
     else if length text_arg > 5000 then
       \<lparr> returned = Inr (JsonResponse 400 (error_body (lit
           ''Text too long (max 5000 characters)''))),
         provider_calls = [], tmp_files = files \<rparr>
     else tts_synthesize c lib io files text_arg language_code voice_name))))))"

text \<open>The \<open>except Exception as e\<close> clause, on \<open>str(e)\<close>.\<close>

definition tts_except :: "pystr \<Rightarrow> response" where
  "tts_except e =
     (if str_in (lit ''PERMISSION_DENIED'') e then
        JsonResponse 403 (error_body (lit
          ''Permission denied. Please check your Google Cloud credentials and API access.''))
      else if str_in (lit ''INVALID_ARGUMENT'') e then
        JsonResponse 400 (error_body (lit ''Invalid request parameters: '' @ e))
      else if str_in (lit ''UNIMPLEMENTED'') e then
        JsonResponse 503 (error_body (lit
          ''TTS service is currently unavailable. Please try again later.''))
      else
        JsonResponse 500 (error_body (lit ''TTS service error: '' @ e)))"

definition text_to_speech ::
  "('i, 'v, 'a) client option \<Rightarrow> ('i, 'v, 'a) texttospeech \<Rightarrow> pystr + json \<Rightarrow> file_io \<Rightarrow>
   tmpdir \<Rightarrow> (response, 'i \<times> 'v \<times> 'a) handled"
where
  "text_to_speech cl lib got_json io files =
     (let r = tts_try cl lib got_json io files in
      \<lparr> returned = (case returned r of Inl e \<Rightarrow> tts_except e | Inr resp \<Rightarrow> resp),
        provider_calls = provider_calls r,
        tmp_files = tmp_files r \<rparr>)"

subsection \<open>\<open>GET /voices\<close>\<close>

text \<open>\<open>args_language_code\<close> is the query parameter \<open>language_code\<close>, if the URL has it.\<close>

definition voice_json :: "voice \<Rightarrow> json" where
  "voice_json v =
     JObj [(lit ''name'', JStr (name v)),
           (lit ''language_codes'', JArr (map JStr (language_codes v))),
           (lit ''ssml_gender'', JStr (ssml_gender v)),
           (lit ''natural_sample_rate_hertz'', JInt (natural_sample_rate_hertz v))]"

definition list_voices :: "('i, 'v, 'a) client option \<Rightarrow> pystr option \<Rightarrow> response" where
  "list_voices cl args_language_code =
     (case cl of
        None \<Rightarrow> JsonResponse 503 (error_body (lit ''Text-to-Speech service is not available''))
      | Some c \<Rightarrow>
          (let language_code = (case args_language_code of None \<Rightarrow> [] | Some s \<Rightarrow> s) in
           case client_list_voices c language_code of
             Inl e \<Rightarrow> JsonResponse 500 (error_body (lit ''Failed to list voices: '' @ e))
           | Inr voices \<Rightarrow>
               (let voice_list = map voice_json voices in
                JsonResponse 200
                  (JObj [(lit ''voices'', JArr voice_list),
                         (lit ''total_count'', JInt (int (length voice_list)))]))))"

subsection \<open>\<open>GET /supported-languages\<close>\<close>

text \<open>
  The dictionary literal, item by item. \<open>len\<close> of a \<open>dict\<close> counts its keys, each once.
\<close>

definition languages :: "(string \<times> string) list" where
  "languages =
     [(''en'', ''English''), (''es'', ''Spanish''), (''fr'', ''French''), (''de'', ''German''),
      (''it'', ''Italian''), (''pt'', ''Portuguese''), (''ru'', ''Russian''),
      (''ja'', ''Japanese''), (''ko'', ''Korean''), (''zh'', ''Chinese''), (''ar'', ''Arabic''),
      (''hi'', ''Hindi''), (''nl'', ''Dutch''), (''sv'', ''Swedish''), (''no'', ''Norwegian''),
      (''da'', ''Danish''), (''fi'', ''Finnish''), (''pl'', ''Polish''), (''tr'', ''Turkish''),
      (''uk'', ''Ukrainian''), (''cs'', ''Czech''), (''sk'', ''Slovak''),
      (''hu'', ''Hungarian''), (''ro'', ''Romanian''), (''bg'', ''Bulgarian''),
      (''hr'', ''Croatian''), (''sl'', ''Slovenian''), (''et'', ''Estonian''),
      (''lv'', ''Latvian''), (''lt'', ''Lithuanian''), (''th'', ''Thai''),
      (''vi'', ''Vietnamese''), (''id'', ''Indonesian''), (''ms'', ''Malay''),
      (''tl'', ''Filipino''), (''el'', ''Greek''), (''he'', ''Hebrew''), (''bn'', ''Bengali''),
      (''ta'', ''Tamil''), (''te'', ''Telugu''), (''mr'', ''Marathi''), (''gu'', ''Gujarati''),
      (''pa'', ''Punjabi''), (''ur'', ''Urdu''), (''sw'', ''Swahili''),
      (''af'', ''Afrikaans''), (''is'', ''Icelandic'')]"

definition dict_len :: "('k \<times> 'v) list \<Rightarrow> nat" where
  "dict_len items = length (remdups (map fst items))"

definition supported_languages :: response where
  "supported_languages =
     JsonResponse 200
       (JObj [(lit ''languages'', JObj (map (\<lambda>(code, display). (lit code, JStr (lit display))) languages)),
              (lit ''total_count'', JInt (int (dict_len languages)))])"

subsection \<open>Sample collaborators\<close>

text \<open>
  Concrete values for the parameters, used to run the handlers on examples: a library
  that builds the messages from strings and raises on a language code or voice name
  that is not a string and on a text with a surrogate code point; a client whose calls
  succeed and one whose calls raise a given message; file calls that succeed and file
  calls on a full disk; a credentials library that accepts or rejects what it is
  given; and two environments.
\<close>

type_synonym sample_call = "pystr \<times> (pystr \<times> pystr) \<times> (audio_encoding \<times> json \<times> json \<times> json)"

definition is_surrogate :: "nat \<Rightarrow> bool" where
  "is_surrogate c \<longleftrightarrow> 55296 \<le> c \<and> c \<le> 57343"

definition checking_texttospeech ::
  "(pystr, pystr \<times> pystr, audio_encoding \<times> json \<times> json \<times> json) texttospeech"
where
  "checking_texttospeech =
     \<lparr> SynthesisInput =
         (\<lambda>t. if list_ex is_surrogate t then Inl (lit ''surrogates not allowed'') else Inr t),
       VoiceSelectionParams =
         (\<lambda>language_code voice_name.
            case language_code of
              JStr l \<Rightarrow>
                (case voice_name of
                   JStr n \<Rightarrow> Inr (l, n)
                 | _ \<Rightarrow> Inl (lit ''bad argument type for built-in operation''))
            | _ \<Rightarrow> Inl (lit ''bad argument type for built-in operation'')),
       AudioConfig =
         (\<lambda>encoding speaking_rate pitch volume_gain_db.
            Inr (encoding, speaking_rate, pitch, volume_gain_db)) \<rparr>"

definition sample_audio :: bytes where
  "sample_audio = [0x49, 0x44, 0x33, 0x04]"

definition answering_client ::
  "(pystr, pystr \<times> pystr, audio_encoding \<times> json \<times> json \<times> json) client"
where
  "answering_client =
     \<lparr> client_synthesize_speech = (\<lambda>synthesis_input voice audio_config. Inr sample_audio),
       client_list_voices = (\<lambda>language_code. Inr []) \<rparr>"

definition raising_client ::
  "pystr \<Rightarrow> (pystr, pystr \<times> pystr, audio_encoding \<times> json \<times> json \<times> json) client"
where
  "raising_client msg =
     \<lparr> client_synthesize_speech = (\<lambda>synthesis_input voice audio_config. Inl msg),
       client_list_voices = (\<lambda>language_code. Inl msg) \<rparr>"

definition working_files :: file_io where
  "working_files =
     \<lparr> NamedTemporaryFile = (\<lambda>delete suffix. Inr (lit ''/tmp/tmpk3v9'' @ suffix)),
       tmp_file_write = (\<lambda>content. Inr ()),
       tmp_file_close = Inr (),
       left_on_disk = (\<lambda>content. []),
       send_file = (\<lambda>path mimetype as_attachment download_name. Inr ()) \<rparr>"


definition accepting_credentials :: "credentials_info \<Rightarrow> pystr + credentials_info" where
  "accepting_credentials info = Inr info"

definition rejecting_credentials :: "credentials_info \<Rightarrow> pystr + credentials_info" where
  "rejecting_credentials info = Inl (lit ''Could not deserialize key data.'')"

definition connecting ::
  "credentials_info \<Rightarrow>
   pystr + (pystr, pystr \<times> pystr, audio_encoding \<times> json \<times> json \<times> json) client"
where
  "connecting credentials = Inr answering_client"

definition full_environ :: environ where
  "full_environ =
     map_of [(lit ''GOOGLE_CLOUD_PROJECT_ID'', lit ''demo-project''),
             (lit ''GOOGLE_CLOUD_PRIVATE_KEY'', lit ''not a PEM key''),
             (lit ''GOOGLE_CLOUD_CLIENT_EMAIL'', lit ''tts@demo-project.iam.gserviceaccount.com'')]"

definition partial_environ :: environ where
  "partial_environ =
     map_of [(lit ''GOOGLE_CLOUD_PROJECT_ID'', lit ''demo-project''),
             (lit ''GOOGLE_CLOUD_PRIVATE_KEY'', []),
             (lit ''GOOGLE_CLOUD_CLIENT_EMAIL'', lit ''tts@demo-project.iam.gserviceaccount.com'')]"

text \<open>
  \<open>str(e)\<close> of the \<open>werkzeug.exceptions.BadRequest\<close> that \<open>request.get_json()\<close> raises
  when the body cannot be decoded as JSON.
\<close>

definition bad_request_str :: pystr where
  "bad_request_str =
     lit ''400 Bad Request: The browser (or proxy) sent a request that this server could not understand.''"

text \<open>A provider message that carries two of the markers the \<open>except\<close> clause looks for.\<close>

definition overlapping_message :: pystr where
  "overlapping_message = lit ''403 PERMISSION_DENIED: request rejected (INVALID_ARGUMENT)''"

text \<open>The bodies of the examples and the path the sample file calls hand out.\<close>

definition hi_body :: json where
  "hi_body = JObj [(lit ''text'', JStr (lit ''hi''))]"


section \<open>Properties\<close>

subsection \<open>Auxiliary facts\<close>

text \<open>The three components of what \<open>text_to_speech\<close> returns.\<close>

lemma text_to_speech_sel:
  "returned (text_to_speech cl lib got_json io files) =
     (case returned (tts_try cl lib got_json io files) of
        Inl e \<Rightarrow> tts_except e | Inr resp \<Rightarrow> resp)"
  "provider_calls (text_to_speech cl lib got_json io files) =
     provider_calls (tts_try cl lib got_json io files)"
  "tmp_files (text_to_speech cl lib got_json io files) =
     tmp_files (tts_try cl lib got_json io files)"
  by (simp_all add: text_to_speech_def Let_def)

text \<open>A non-empty string that neither starts nor ends with whitespace is its own trim.\<close>

lemma strip_unchanged:
  assumes "s \<noteq> []" "\<not> isspace (hd s)" "\<not> isspace (last s)"
  shows "strip s = s"
proof -
  from assms have a: "dropWhile isspace s = s"
    by (cases s) auto
  from assms have "rev s \<noteq> []" "\<not> isspace (hd (rev s))"
    by (simp_all add: hd_rev)
  then have "dropWhile isspace (rev s) = rev s"
    by (cases "rev s") auto
  with a show ?thesis
    by (simp add: strip_def)
qed

text \<open>
  With a client and a non-empty \<open>dict\<close> whose \<open>text\<close> is a string (or missing), the
  \<open>try\<close> body validates the trimmed text and goes on to the synthesis.
\<close>

lemma tts_try_valid:
  assumes "kvs \<noteq> []"
    and "dict_get (JObj kvs) (lit ''text'') (JStr []) = Inr (JStr s)"
    and "dict_get (JObj kvs) (lit ''languageCode'') (JStr (lit ''en-US'')) = Inr language_code"
    and "dict_get (JObj kvs) (lit ''voiceName'') (JStr (lit ''en-US-Wavenet-D'')) = Inr voice"
  shows "tts_try (Some c) lib (Inr (JObj kvs)) io files =
     (if strip s = [] then
        \<lparr> returned = Inr (JsonResponse 400 (error_body (lit ''Text is required''))),
          provider_calls = [], tmp_files = files \<rparr>
      else if length (strip s) > 5000 then
        \<lparr> returned = Inr (JsonResponse 400 (error_body (lit
            ''Text too long (max 5000 characters)''))),
          provider_calls = [], tmp_files = files \<rparr>
      else tts_synthesize c lib io files (strip s) language_code voice)"
  using assms
  by (simp add: tts_try_def obj_strip_def)

text \<open>A body that \<open>get_json\<close> returns and Python counts as false is answered with 400.\<close>

lemma tts_falsy_body:
  "\<not> truthy data \<Longrightarrow>
   text_to_speech (Some c) lib (Inr data) io files =
     \<lparr> returned = JsonResponse 400 (error_body (lit ''No JSON data provided'')),
       provider_calls = [], tmp_files = files \<rparr>"
  by (simp add: text_to_speech_def tts_try_def)

text \<open>A raise inside \<open>get_json\<close> goes to the \<open>except\<close> clause before anything else runs.\<close>

lemma tts_get_json_raises:
  "text_to_speech (Some c) lib (Inl e) io files =
     \<lparr> returned = tts_except e, provider_calls = [], tmp_files = files \<rparr>"
  by (simp add: text_to_speech_def tts_try_def)

text \<open>
  The synthesis: a constructor that raises ends it before the provider is called; once
  the three messages are built the provider is called with them; a raise of the provider
  leaves no file.
\<close>

lemma tts_synthesize_not_built:
  "SynthesisInput lib t = Inl e \<Longrightarrow>
   tts_synthesize c lib io files t l n =
     \<lparr> returned = Inl e, provider_calls = [], tmp_files = files \<rparr>"
  "SynthesisInput lib t = Inr i \<Longrightarrow> VoiceSelectionParams lib l n = Inl e \<Longrightarrow>
   tts_synthesize c lib io files t l n =
     \<lparr> returned = Inl e, provider_calls = [], tmp_files = files \<rparr>"
  "SynthesisInput lib t = Inr i \<Longrightarrow> VoiceSelectionParams lib l n = Inr v \<Longrightarrow>
   AudioConfig lib MP3 (JFloat 1 0) (JFloat 0 0) (JFloat 0 0) = Inl e \<Longrightarrow>
   tts_synthesize c lib io files t l n =
     \<lparr> returned = Inl e, provider_calls = [], tmp_files = files \<rparr>"
  by (simp_all add: tts_synthesize_def)

lemma tts_synthesize_called:
  assumes "SynthesisInput lib t = Inr i" "VoiceSelectionParams lib l n = Inr v"
    and "AudioConfig lib MP3 (JFloat 1 0) (JFloat 0 0) (JFloat 0 0) = Inr a"
  shows "provider_calls (tts_synthesize c lib io files t l n) = [(i, v, a)]"
  using assms
  by (simp add: tts_synthesize_def split: sum.splits)

lemma tts_synthesize_provider_raises:
  assumes "SynthesisInput lib t = Inr i" "VoiceSelectionParams lib l n = Inr v"
    and "AudioConfig lib MP3 (JFloat 1 0) (JFloat 0 0) (JFloat 0 0) = Inr a"
    and "client_synthesize_speech c i v a = Inl e"
  shows "tts_synthesize c lib io files t l n =
     \<lparr> returned = Inl e, provider_calls = [(i, v, a)], tmp_files = files \<rparr>"
  using assms
  by (simp add: tts_synthesize_def)






text \<open>None of the three markers occurs in the messages of the examples.\<close>

lemma markers_absent_bad_request:
  "\<not> str_in (lit ''PERMISSION_DENIED'') bad_request_str"
  "\<not> str_in (lit ''INVALID_ARGUMENT'') bad_request_str"
  "\<not> str_in (lit ''UNIMPLEMENTED'') bad_request_str"
  by (simp_all add: lit_def bad_request_str_def)

lemma markers_absent_attribute_error:
  "\<not> str_in (lit ''PERMISSION_DENIED'') (attribute_error v attr) \<and>
   \<not> str_in (lit ''INVALID_ARGUMENT'') (attribute_error v attr) \<and>
   \<not> str_in (lit ''UNIMPLEMENTED'') (attribute_error v attr)"
  if "attr = ''strip'' \<or> attr = ''get''"
  using that
  by (cases v) (auto simp: lit_def attribute_error_def apostrophe_def)

lemma markers_absent_type_error:
  "\<not> str_in (lit ''PERMISSION_DENIED'') (lit ''bad argument type for built-in operation'')"
  "\<not> str_in (lit ''INVALID_ARGUMENT'') (lit ''bad argument type for built-in operation'')"
  "\<not> str_in (lit ''UNIMPLEMENTED'') (lit ''bad argument type for built-in operation'')"
  by (simp_all add: lit_def)


text \<open>A required variable counts as missing when it is unset or empty.\<close>

lemma not_set_iff:
  "not_set getenv var \<longleftrightarrow> getenv var = None \<or> getenv var = Some []"
  by (cases "getenv var") (simp_all add: not_set_def)

lemma missing_vars_iff:
  "missing_vars getenv \<noteq> [] \<longleftrightarrow>
     (\<exists>var \<in> set required_vars. getenv var = None \<or> getenv var = Some [])"
  by (simp add: missing_vars_def filter_empty_conv not_set_iff)

text \<open>The sample environments: distinct names, non-empty values, what is missing.\<close>

lemma env_names:
  "lit ''GOOGLE_CLOUD_PROJECT_ID'' \<noteq> lit ''GOOGLE_CLOUD_PRIVATE_KEY''"
  "lit ''GOOGLE_CLOUD_PROJECT_ID'' \<noteq> lit ''GOOGLE_CLOUD_CLIENT_EMAIL''"
  "lit ''GOOGLE_CLOUD_PRIVATE_KEY'' \<noteq> lit ''GOOGLE_CLOUD_CLIENT_EMAIL''"
  "lit ''GOOGLE_CLOUD_PRIVATE_KEY'' \<noteq> lit ''GOOGLE_CLOUD_PROJECT_ID''"
  "lit ''GOOGLE_CLOUD_CLIENT_EMAIL'' \<noteq> lit ''GOOGLE_CLOUD_PROJECT_ID''"
  "lit ''GOOGLE_CLOUD_CLIENT_EMAIL'' \<noteq> lit ''GOOGLE_CLOUD_PRIVATE_KEY''"
  by (simp_all add: lit_def)

lemma env_values:
  "lit ''demo-project'' \<noteq> []" "lit ''not a PEM key'' \<noteq> []"
  "lit ''tts@demo-project.iam.gserviceaccount.com'' \<noteq> []"
  by (simp_all add: lit_def)

lemma missing_vars_partial_environ:
  "missing_vars partial_environ = [lit ''GOOGLE_CLOUD_PRIVATE_KEY'']"
  by (simp add: missing_vars_def required_vars_def not_set_def partial_environ_def
      env_names env_values)

lemma missing_vars_full_environ:
  "missing_vars full_environ = []"
  by (simp add: missing_vars_def required_vars_def not_set_def full_environ_def
      env_names env_values)

text \<open>The sample requests, run through the \<open>try\<close> body.\<close>

lemma sample_keys:
  "lit ''languageCode'' \<noteq> lit ''text''" "lit ''voiceName'' \<noteq> lit ''text''"
  "lit ''text'' \<noteq> lit ''languageCode''" "lit ''voiceName'' \<noteq> lit ''languageCode''"
  by (simp_all add: lit_def)

lemma sample_texts:
  "strip (lit ''hi'') = lit ''hi''" "length (lit ''hi'') = 2" "lit ''hi'' \<noteq> []"
  "strip (lit ''  Hello '') = lit ''Hello''" "length (lit ''Hello'') = 5" "lit ''Hello'' \<noteq> []"
  "strip [] = []"
  by (simp_all add: strip_def lit_def isspace_def)

lemma sample_messages:
  "SynthesisInput checking_texttospeech (lit ''hi'') = Inr (lit ''hi'')"
  "SynthesisInput checking_texttospeech (lit ''Hello'') = Inr (lit ''Hello'')"
  "VoiceSelectionParams checking_texttospeech (JStr l) (JStr n) = Inr (l, n)"
  "VoiceSelectionParams checking_texttospeech (JInt k) n' =
     Inl (lit ''bad argument type for built-in operation'')"
  "AudioConfig checking_texttospeech enc r p g = Inr (enc, r, p, g)"
  by (simp_all add: checking_texttospeech_def lit_def is_surrogate_def)


lemma hi_body_try:
  "tts_try (Some c) checking_texttospeech (Inr hi_body) io files =
     tts_synthesize c checking_texttospeech io files (lit ''hi'')
       (JStr (lit ''en-US'')) (JStr (lit ''en-US-Wavenet-D''))"
  unfolding hi_body_def
  by (subst tts_try_valid [where s = "lit ''hi''" and language_code = "JStr (lit ''en-US'')"
        and voice = "JStr (lit ''en-US-Wavenet-D'')"])
    (simp_all add: dict_get_def sample_keys sample_texts)

lemma hi_body_raising:
  "tts_try (Some (raising_client msg)) checking_texttospeech (Inr hi_body) io files =
     \<lparr> returned = Inl msg,
       provider_calls = [(lit ''hi'', (lit ''en-US'', lit ''en-US-Wavenet-D''),
         (MP3, JFloat 1 0, JFloat 0 0, JFloat 0 0))],
       tmp_files = files \<rparr>"
  unfolding hi_body_try
  by (rule tts_synthesize_provider_raises) (simp_all add: sample_messages raising_client_def)



text \<open>\<open>sub in s\<close> holds exactly when \<open>s\<close> splits around a copy of \<open>sub\<close>.\<close>

lemma str_in_iff: "str_in sub s \<longleftrightarrow> (\<exists>a b. s = a @ sub @ b)"
proof -
  have "str_in sub s \<longleftrightarrow> sublist sub s"
    by (induction s) (simp_all add: sublist_Cons_right)
  then show ?thesis
    by (simp add: sublist_def)
qed

text \<open>
  \<open>replace('\\n', '\n')\<close>, unfolded for its two-character pattern: how it steps through a
  string, what it does at an occurrence, that it leaves a string without occurrences
  alone, and that no occurrence is left in its result.
\<close>

lemma escape_pattern: "backslash # lit ''n'' = [92, 110]"
  by (simp add: backslash_def lit_def)

lemma unescape_Nil: "str_replace [92, 110] [newline] [] = []"
  by (subst str_replace.simps) simp

lemma unescape_single: "str_replace [92, 110] [newline] [c] = [c]"
  by (subst str_replace.simps) (simp add: unescape_Nil)

lemma newline_neq: "newline \<noteq> 110" "newline \<noteq> 92"
  by (simp_all add: newline_def)

lemma unescape_Cons:
  "str_replace [92, 110] [newline] (a # b # cs) =
     (if a = 92 \<and> b = 110 then newline # str_replace [92, 110] [newline] cs
      else a # str_replace [92, 110] [newline] (b # cs))"
  by (subst str_replace.simps) simp

lemma unescape_at_occurrence:
  "str_replace [92, 110] [newline] (a @ [92, 110] @ b) =
     str_replace [92, 110] [newline] a @ [newline] @ str_replace [92, 110] [newline] b"
proof (induction a rule: induct_list012)
  case 1
  show ?case by (simp add: unescape_Cons unescape_Nil)
next
  case (2 x)
  show ?case by (simp add: unescape_Cons unescape_single)
next
  case (3 x y zs)
  then show ?case by (simp add: unescape_Cons)
qed

lemma unescape_without_occurrence:
  "\<not> str_in [92, 110] s \<Longrightarrow> str_replace [92, 110] [newline] s = s"
proof (induction s rule: induct_list012)
  case 1
  show ?case by (simp add: unescape_Nil)
next
  case (2 x)
  show ?case by (simp add: unescape_single)
next
  case (3 x y zs)
  then show ?case
    by (simp add: unescape_Cons)
qed

lemma hd_unescape:
  "b \<noteq> 110 \<Longrightarrow> hd (str_replace [92, 110] [newline] (b # cs)) \<noteq> 110"
  by (cases cs) (simp_all add: unescape_Cons unescape_single newline_neq)

lemma unescape_nonempty:
  "str_replace [92, 110] [newline] (b # cs) \<noteq> []"
  by (cases cs) (simp_all add: unescape_Cons unescape_single)

lemma unescape_leaves_none:
  "\<not> str_in [92, 110] (str_replace [92, 110] [newline] s)"
proof (induction s rule: induct_list012)
  case 1
  show ?case by (simp add: unescape_Nil)
next
  case (2 x)
  show ?case by (simp add: unescape_single)
next
  case (3 x y zs)
  show ?case
  proof (cases "x = 92 \<and> y = 110")
    case True
    then have "str_replace [92, 110] [newline] (x # y # zs) =
        newline # str_replace [92, 110] [newline] zs"
      by (simp add: unescape_Cons)
    with "3.IH"(1) show ?thesis
      by (simp add: newline_neq)
  next
    case False
    obtain h t where ht: "str_replace [92, 110] [newline] (y # zs) = h # t"
      using unescape_nonempty [of y zs]
      by (cases "str_replace [92, 110] [newline] (y # zs)") auto
    from False have "(x = 92 \<and> y = 110) = False"
      by simp
    then have r: "str_replace [92, 110] [newline] (x # y # zs) = x # h # t"
      by (simp only: unescape_Cons ht if_False)
    have n: "\<not> str_in [92, 110] (h # t)"
      using "3.IH"(2) unfolding ht .
    have "\<not> (x = 92 \<and> h = 110)"
    proof
      assume a: "x = 92 \<and> h = 110"
      with False have "y \<noteq> 110" by simp
      then have "hd (str_replace [92, 110] [newline] (y # zs)) \<noteq> 110"
        by (rule hd_unescape)
      with a show False by (simp only: ht list.sel)
    qed
    then have "\<not> prefix [92, 110] (x # h # t)"
      by simp
    with n show ?thesis
      by (simp only: r str_in.simps) simp
  qed
qed

subsection \<open>Validation of the text (C1)\<close>

text \<open>
  C1, as stated, says that a body whose trimmed text is empty is answered with
  \<open>Text is required\<close> and that a trimmed text of 1 to 5000 characters always reaches the
  provider. The empty object \<open>{}\<close> has no text, so its trimmed text is empty, and it is
  answered by the earlier test \<open>if not data\<close> with \<open>No JSON data provided\<close>. And the
  three request messages are built before \<open>client.synthesize_speech\<close> is called: with
  \<open>{"text": "hi", "languageCode": 123}\<close> against a library that rejects a language code
  that is not a string, \<open>VoiceSelectionParams\<close> raises, the provider is never called and
  the answer is 500.
\<close>

theorem tts_empty_object_and_unbuilt_messages:
  "dict_get (JObj []) (lit ''text'') (JStr []) = Inr (JStr []) \<and> length (strip []) = 0 \<and>
   returned (text_to_speech (Some answering_client) checking_texttospeech (Inr (JObj []))
     working_files Map.empty) = JsonResponse 400 (error_body (lit ''No JSON data provided'')) \<and>
   error_body (lit ''No JSON data provided'') \<noteq> error_body (lit ''Text is required'') \<and>
   length (strip (lit ''hi'')) = 2 \<and>
   provider_calls (text_to_speech (Some answering_client) checking_texttospeech
     (Inr (JObj [(lit ''text'', JStr (lit ''hi'')), (lit ''languageCode'', JInt 123)]))
     working_files Map.empty) = [] \<and>
   status (returned (text_to_speech (Some answering_client) checking_texttospeech
     (Inr (JObj [(lit ''text'', JStr (lit ''hi'')), (lit ''languageCode'', JInt 123)]))
     working_files Map.empty)) = 500"
proof -
  have 1: "returned (text_to_speech (Some answering_client) checking_texttospeech (Inr (JObj []))
     working_files Map.empty) = JsonResponse 400 (error_body (lit ''No JSON data provided''))"
    by (simp add: tts_falsy_body)
  have 2: "error_body (lit ''No JSON data provided'') \<noteq> error_body (lit ''Text is required'')"
    by (simp add: error_body_def lit_def)
  have "tts_try (Some answering_client) checking_texttospeech
     (Inr (JObj [(lit ''text'', JStr (lit ''hi'')), (lit ''languageCode'', JInt 123)]))
     working_files Map.empty =
     tts_synthesize answering_client checking_texttospeech working_files Map.empty
       (lit ''hi'') (JInt 123) (JStr (lit ''en-US-Wavenet-D''))"
    by (subst tts_try_valid [where s = "lit ''hi''" and language_code = "JInt 123"
          and voice = "JStr (lit ''en-US-Wavenet-D'')"])
      (simp_all add: dict_get_def sample_keys sample_texts)
  also have "\<dots> = \<lparr> returned = Inl (lit ''bad argument type for built-in operation''),
      provider_calls = [], tmp_files = Map.empty \<rparr>"
    by (rule tts_synthesize_not_built(2)) (simp_all add: sample_messages)
  finally have 3: "tts_try (Some answering_client) checking_texttospeech
     (Inr (JObj [(lit ''text'', JStr (lit ''hi'')), (lit ''languageCode'', JInt 123)]))
     working_files Map.empty =
     \<lparr> returned = Inl (lit ''bad argument type for built-in operation''),
      provider_calls = [], tmp_files = Map.empty \<rparr>" .
  have 4: "provider_calls (text_to_speech (Some answering_client) checking_texttospeech
     (Inr (JObj [(lit ''text'', JStr (lit ''hi'')), (lit ''languageCode'', JInt 123)]))
     working_files Map.empty) = []"
    by (simp add: text_to_speech_sel 3)
  have 5: "status (returned (text_to_speech (Some answering_client) checking_texttospeech
     (Inr (JObj [(lit ''text'', JStr (lit ''hi'')), (lit ''languageCode'', JInt 123)]))
     working_files Map.empty)) = 500"
    by (simp add: text_to_speech_sel 3 tts_except_def markers_absent_type_error)
  show ?thesis
    by (simp add: 1 2 4 5 dict_get_def sample_texts)
qed

text \<open>
  C1, amended. For a \<open>POST /tts\<close> with the client present and a JSON object body whose
  \<open>text\<close> is a string or missing: the empty object is answered with 400 and
  \<open>{"error": "No JSON data provided"}\<close>; for a non-empty object, a trimmed text of length
  0 is answered with 400 and \<open>{"error": "Text is required"}\<close>, a trimmed text longer
  than 5000 characters with 400 and \<open>{"error": "Text too long (max 5000 characters)"}\<close>,
  in all three cases without a call to the provider; and for a trimmed text of 1 to 5000
  characters the handler builds the three request messages from the trimmed text, the
  language code and the voice name of the request (defaults \<open>en-US\<close> and
  \<open>en-US-Wavenet-D\<close>) and the fixed MP3 configuration, and then, when the library has
  built them, calls the provider once with them; when a constructor raises, the provider
  is not called and the \<open>except\<close> clause answers.
\<close>

theorem tts_text_length_validation:
  assumes "dict_get (JObj kvs) (lit ''text'') (JStr []) = Inr (JStr s)"
    and "dict_get (JObj kvs) (lit ''languageCode'') (JStr (lit ''en-US'')) = Inr language_code"
    and "dict_get (JObj kvs) (lit ''voiceName'') (JStr (lit ''en-US-Wavenet-D'')) = Inr voice"
  shows
    "(kvs = [] \<longrightarrow>
        returned (text_to_speech (Some c) lib (Inr (JObj kvs)) io files) =
          JsonResponse 400 (error_body (lit ''No JSON data provided'')) \<and>
        provider_calls (text_to_speech (Some c) lib (Inr (JObj kvs)) io files) = []) \<and>
     (kvs \<noteq> [] \<and> length (strip s) = 0 \<longrightarrow>
        returned (text_to_speech (Some c) lib (Inr (JObj kvs)) io files) =
          JsonResponse 400 (error_body (lit ''Text is required'')) \<and>
        provider_calls (text_to_speech (Some c) lib (Inr (JObj kvs)) io files) = []) \<and>
     (kvs \<noteq> [] \<and> 5000 < length (strip s) \<longrightarrow>
        returned (text_to_speech (Some c) lib (Inr (JObj kvs)) io files) =
          JsonResponse 400 (error_body (lit ''Text too long (max 5000 characters)'')) \<and>
        provider_calls (text_to_speech (Some c) lib (Inr (JObj kvs)) io files) = []) \<and>
     (kvs \<noteq> [] \<and> 1 \<le> length (strip s) \<and> length (strip s) \<le> 5000 \<longrightarrow>
        (\<forall>i v a. SynthesisInput lib (strip s) = Inr i \<and>
           VoiceSelectionParams lib language_code voice = Inr v \<and>
           AudioConfig lib MP3 (JFloat 1 0) (JFloat 0 0) (JFloat 0 0) = Inr a \<longrightarrow>
           provider_calls (text_to_speech (Some c) lib (Inr (JObj kvs)) io files) = [(i, v, a)]) \<and>
        (\<forall>e. SynthesisInput lib (strip s) = Inl e \<or>
           (\<exists>i. SynthesisInput lib (strip s) = Inr i \<and>
              (VoiceSelectionParams lib language_code voice = Inl e \<or>
               (\<exists>v. VoiceSelectionParams lib language_code voice = Inr v \<and>
                  AudioConfig lib MP3 (JFloat 1 0) (JFloat 0 0) (JFloat 0 0) = Inl e))) \<longrightarrow>
           returned (text_to_speech (Some c) lib (Inr (JObj kvs)) io files) = tts_except e \<and>
           provider_calls (text_to_speech (Some c) lib (Inr (JObj kvs)) io files) = []))"
proof (intro conjI impI allI)
  assume "kvs = []"
  then have "\<not> truthy (JObj kvs)" by simp
  from tts_falsy_body [OF this, of c lib io files]
  show "returned (text_to_speech (Some c) lib (Inr (JObj kvs)) io files) =
          JsonResponse 400 (error_body (lit ''No JSON data provided''))"
    and "provider_calls (text_to_speech (Some c) lib (Inr (JObj kvs)) io files) = []"
    by simp_all
next
  assume a: "kvs \<noteq> [] \<and> length (strip s) = 0"
  then have "tts_try (Some c) lib (Inr (JObj kvs)) io files =
      \<lparr> returned = Inr (JsonResponse 400 (error_body (lit ''Text is required''))),
        provider_calls = [], tmp_files = files \<rparr>"
    using assms by (simp add: tts_try_valid)
  then show "returned (text_to_speech (Some c) lib (Inr (JObj kvs)) io files) =
          JsonResponse 400 (error_body (lit ''Text is required''))"
    and "provider_calls (text_to_speech (Some c) lib (Inr (JObj kvs)) io files) = []"
    by (simp_all add: text_to_speech_sel)
next
  assume a: "kvs \<noteq> [] \<and> 5000 < length (strip s)"
  then have "strip s \<noteq> []" by auto
  with a have "tts_try (Some c) lib (Inr (JObj kvs)) io files =
      \<lparr> returned = Inr (JsonResponse 400 (error_body (lit
          ''Text too long (max 5000 characters)''))),
        provider_calls = [], tmp_files = files \<rparr>"
    using assms by (simp add: tts_try_valid)
  then show "returned (text_to_speech (Some c) lib (Inr (JObj kvs)) io files) =
          JsonResponse 400 (error_body (lit ''Text too long (max 5000 characters)''))"
    and "provider_calls (text_to_speech (Some c) lib (Inr (JObj kvs)) io files) = []"
    by (simp_all add: text_to_speech_sel)
next
  fix i v a
  assume r: "kvs \<noteq> [] \<and> 1 \<le> length (strip s) \<and> length (strip s) \<le> 5000"
    and b: "SynthesisInput lib (strip s) = Inr i \<and>
           VoiceSelectionParams lib language_code voice = Inr v \<and>
           AudioConfig lib MP3 (JFloat 1 0) (JFloat 0 0) (JFloat 0 0) = Inr a"
  from r have "strip s \<noteq> []" by auto
  with r have "tts_try (Some c) lib (Inr (JObj kvs)) io files =
      tts_synthesize c lib io files (strip s) language_code voice"
    using assms by (simp add: tts_try_valid)
  with b show "provider_calls (text_to_speech (Some c) lib (Inr (JObj kvs)) io files) = [(i, v, a)]"
    by (simp add: text_to_speech_sel tts_synthesize_called)
next
  fix e
  assume r: "kvs \<noteq> [] \<and> 1 \<le> length (strip s) \<and> length (strip s) \<le> 5000"
    and b: "SynthesisInput lib (strip s) = Inl e \<or>
           (\<exists>i. SynthesisInput lib (strip s) = Inr i \<and>
              (VoiceSelectionParams lib language_code voice = Inl e \<or>
               (\<exists>v. VoiceSelectionParams lib language_code voice = Inr v \<and>
                  AudioConfig lib MP3 (JFloat 1 0) (JFloat 0 0) (JFloat 0 0) = Inl e)))"
  from r have "strip s \<noteq> []" by auto
  with r have t: "tts_try (Some c) lib (Inr (JObj kvs)) io files =
      tts_synthesize c lib io files (strip s) language_code voice"
    using assms by (simp add: tts_try_valid)
  from b have "tts_synthesize c lib io files (strip s) language_code voice =
      \<lparr> returned = Inl e, provider_calls = [], tmp_files = files \<rparr>"
    by (auto simp: tts_synthesize_not_built)
  with t show "returned (text_to_speech (Some c) lib (Inr (JObj kvs)) io files) = tts_except e"
    and "provider_calls (text_to_speech (Some c) lib (Inr (JObj kvs)) io files) = []"
    by (simp_all add: text_to_speech_sel)
qed

text \<open>
  The cases on examples: \<open>{}\<close>, the empty text, 5001 times the letter \<open>a\<close>,
  \<open>"  Hello "\<close>, and a language code that is a number.
\<close>

theorem tts_text_length_validation_witness:
  "returned (text_to_speech (Some answering_client) checking_texttospeech
      (Inr (JObj [])) working_files Map.empty) =
     JsonResponse 400 (error_body (lit ''No JSON data provided'')) \<and>
   returned (text_to_speech (Some answering_client) checking_texttospeech
      (Inr (JObj [(lit ''text'', JStr [])])) working_files Map.empty) =
     JsonResponse 400 (error_body (lit ''Text is required'')) \<and>
   returned (text_to_speech (Some answering_client) checking_texttospeech
      (Inr (JObj [(lit ''text'', JStr (replicate 5001 97))])) working_files Map.empty) =
     JsonResponse 400 (error_body (lit ''Text too long (max 5000 characters)'')) \<and>
   provider_calls (text_to_speech (Some answering_client) checking_texttospeech
      (Inr (JObj [(lit ''text'', JStr (lit ''  Hello ''))])) working_files Map.empty) =
     [(lit ''Hello'', (lit ''en-US'', lit ''en-US-Wavenet-D''),
       (MP3, JFloat 1 0, JFloat 0 0, JFloat 0 0))] \<and>
   provider_calls (text_to_speech (Some answering_client) checking_texttospeech
      (Inr (JObj [(lit ''text'', JStr (lit ''hi'')), (lit ''languageCode'', JInt 123)]))
      working_files Map.empty) = []"
proof -
  have a: "strip (replicate 5001 97) = replicate 5001 97"
    by (rule strip_unchanged) (simp_all add: isspace_def)
  from tts_text_length_validation [of "[]" "[]" "JStr (lit ''en-US'')"
      "JStr (lit ''en-US-Wavenet-D'')" answering_client checking_texttospeech working_files Map.empty]
  have 0: "returned (text_to_speech (Some answering_client) checking_texttospeech
      (Inr (JObj [])) working_files Map.empty) =
     JsonResponse 400 (error_body (lit ''No JSON data provided''))"
    by (simp add: dict_get_def)
  from tts_text_length_validation [of "[(lit ''text'', JStr [])]" "[]" "JStr (lit ''en-US'')"
      "JStr (lit ''en-US-Wavenet-D'')" answering_client checking_texttospeech working_files Map.empty]
  have 1: "returned (text_to_speech (Some answering_client) checking_texttospeech
      (Inr (JObj [(lit ''text'', JStr [])])) working_files Map.empty) =
     JsonResponse 400 (error_body (lit ''Text is required''))"
    by (simp add: dict_get_def sample_keys sample_texts)
  from tts_text_length_validation [of "[(lit ''text'', JStr (replicate 5001 97))]"
      "replicate 5001 97" "JStr (lit ''en-US'')"
      "JStr (lit ''en-US-Wavenet-D'')" answering_client checking_texttospeech working_files Map.empty]
  have 2: "returned (text_to_speech (Some answering_client) checking_texttospeech
      (Inr (JObj [(lit ''text'', JStr (replicate 5001 97))])) working_files Map.empty) =
     JsonResponse 400 (error_body (lit ''Text too long (max 5000 characters)''))"
    by (simp add: dict_get_def sample_keys a)
  from tts_text_length_validation [of "[(lit ''text'', JStr (lit ''  Hello ''))]"
      "lit ''  Hello ''" "JStr (lit ''en-US'')"
      "JStr (lit ''en-US-Wavenet-D'')" answering_client checking_texttospeech working_files Map.empty]
  have 3: "provider_calls (text_to_speech (Some answering_client) checking_texttospeech
      (Inr (JObj [(lit ''text'', JStr (lit ''  Hello ''))])) working_files Map.empty) =
     [(lit ''Hello'', (lit ''en-US'', lit ''en-US-Wavenet-D''),
       (MP3, JFloat 1 0, JFloat 0 0, JFloat 0 0))]"
    by (simp add: dict_get_def sample_keys sample_texts sample_messages)
  from tts_text_length_validation [of
      "[(lit ''text'', JStr (lit ''hi'')), (lit ''languageCode'', JInt 123)]"
      "lit ''hi''" "JInt 123"
      "JStr (lit ''en-US-Wavenet-D'')" answering_client checking_texttospeech working_files Map.empty]
  have 4: "provider_calls (text_to_speech (Some answering_client) checking_texttospeech
      (Inr (JObj [(lit ''text'', JStr (lit ''hi'')), (lit ''languageCode'', JInt 123)]))
      working_files Map.empty) = []"
    by (simp add: dict_get_def sample_keys sample_texts sample_messages)
  from 0 1 2 3 4 show ?thesis by simp
qed

subsection \<open>A body that is not JSON (C4)\<close>

text \<open>
  C4. The claim is that a missing body or a body that is not valid JSON gives 400. The
  handler returns 400 when \<open>get_json\<close> returns a false value (\<open>tts_falsy_body\<close>). For a
  body that cannot be decoded \<open>get_json()\<close> does not return: it raises
  \<open>BadRequest\<close>, the \<open>except Exception\<close> clause catches it, no marker occurs in its
  message, and the response is 500 with \<open>TTS service error: 400 Bad Request: ...\<close>.
\<close>

theorem tts_undecodable_body_500:
  "returned (text_to_speech (Some answering_client) checking_texttospeech (Inl bad_request_str)
      working_files Map.empty) =
     JsonResponse 500 (error_body (lit ''TTS service error: '' @ bad_request_str)) \<and>
   status (returned (text_to_speech (Some answering_client) checking_texttospeech
      (Inl bad_request_str) working_files Map.empty)) \<noteq> 400"
  by (simp add: tts_get_json_raises tts_except_def markers_absent_bad_request)

subsection \<open>A \<open>text\<close> that is not a string (C10)\<close>

text \<open>
  C10. For a \<open>POST /tts\<close> with the client present and a JSON object body whose \<open>text\<close>
  field is present and not a string, \<open>.strip()\<close> raises \<open>AttributeError\<close>, the
  \<open>except\<close> clause catches it and the response is 500 with
  \<open>TTS service error: '<type>' object has no attribute 'strip'\<close>; the provider is not
  called.
\<close>

theorem tts_non_string_text_500:
  assumes "map_of kvs (lit ''text'') = Some v"
    and "\<forall>s. v \<noteq> JStr s"
  shows "returned (text_to_speech (Some c) lib (Inr (JObj kvs)) io files) =
           JsonResponse 500 (error_body (lit ''TTS service error: '' @ attribute_error v ''strip'')) \<and>
         provider_calls (text_to_speech (Some c) lib (Inr (JObj kvs)) io files) = []"
proof -
  from assms(1) have "kvs \<noteq> []" by auto
  moreover from assms(2) have "obj_strip v = Inl (attribute_error v ''strip'')"
    by (cases v) (simp_all add: obj_strip_def)
  ultimately have "tts_try (Some c) lib (Inr (JObj kvs)) io files =
      \<lparr> returned = Inl (attribute_error v ''strip''), provider_calls = [], tmp_files = files \<rparr>"
    using assms(1) by (simp add: tts_try_def dict_get_def)
  then show ?thesis
    using markers_absent_attribute_error [of "''strip''" v]
    by (simp add: text_to_speech_sel tts_except_def)
qed

theorem tts_non_string_text_500_witness:
  "returned (text_to_speech (Some answering_client) checking_texttospeech
      (Inr (JObj [(lit ''text'', JInt 42)])) working_files Map.empty) =
     JsonResponse 500 (error_body (lit ''TTS service error: '' @ attribute_error (JInt 42) ''strip'')) \<and>
   returned (text_to_speech (Some answering_client) checking_texttospeech
      (Inr (JObj [(lit ''text'', JArr [JStr (lit ''a'')])])) working_files Map.empty) =
     JsonResponse 500 (error_body (lit ''TTS service error: '' @
       attribute_error (JArr [JStr (lit ''a'')]) ''strip''))"
  using tts_non_string_text_500 [of "[(lit ''text'', JInt 42)]" "JInt 42" answering_client
      checking_texttospeech working_files Map.empty]
    tts_non_string_text_500 [of "[(lit ''text'', JArr [JStr (lit ''a'')])]" "JArr [JStr (lit ''a'')]"
      answering_client checking_texttospeech working_files Map.empty]
  by simp

subsection \<open>Provider errors (C2)\<close>

text \<open>
  C2, as stated, says that a provider message containing \<open>INVALID_ARGUMENT\<close> always
  gives 400. The \<open>except\<close> clause is an \<open>if\<close>/\<open>elif\<close> chain that tests
  \<open>PERMISSION_DENIED\<close> first: a message that contains both markers gives 403.
\<close>

theorem tts_invalid_argument_not_always_400:
  "str_in (lit ''INVALID_ARGUMENT'') overlapping_message \<and>
   returned (tts_try (Some (raising_client overlapping_message)) checking_texttospeech
     (Inr hi_body) working_files Map.empty) = Inl overlapping_message \<and>
   provider_calls (text_to_speech (Some (raising_client overlapping_message))
     checking_texttospeech (Inr hi_body) working_files Map.empty) =
     [(lit ''hi'', (lit ''en-US'', lit ''en-US-Wavenet-D''),
       (MP3, JFloat 1 0, JFloat 0 0, JFloat 0 0))] \<and>
   status (returned (text_to_speech (Some (raising_client overlapping_message))
     checking_texttospeech (Inr hi_body) working_files Map.empty)) = 403"
proof -
  have m: "str_in (lit ''INVALID_ARGUMENT'') overlapping_message"
    "str_in (lit ''PERMISSION_DENIED'') overlapping_message"
    by (simp_all add: overlapping_message_def lit_def)
  then show ?thesis
    by (simp add: text_to_speech_sel hi_body_raising tts_except_def)
qed

text \<open>
  C2, amended. When the provider's library raises during the synthesis of a \<open>/tts\<close>
  request (while a message is built or in the call itself), the markers are tested in
  the order \<open>PERMISSION_DENIED\<close>, \<open>INVALID_ARGUMENT\<close>, \<open>UNIMPLEMENTED\<close> and the first one
  found in the message decides: 403 with a fixed body; 400 with the provider message
  after \<open>Invalid request parameters: \<close>; 503 with a fixed body; and, when none is found,
  500 with the provider message after \<open>TTS service error: \<close>.
\<close>

theorem tts_provider_error_status:
  assumes "kvs \<noteq> []"
    and "dict_get (JObj kvs) (lit ''text'') (JStr []) = Inr (JStr s)"
    and "strip s \<noteq> []" and "length (strip s) \<le> 5000"
    and "dict_get (JObj kvs) (lit ''languageCode'') (JStr (lit ''en-US'')) = Inr language_code"
    and "dict_get (JObj kvs) (lit ''voiceName'') (JStr (lit ''en-US-Wavenet-D'')) = Inr voice"
    and "SynthesisInput lib (strip s) = Inl e \<or>
         (\<exists>i. SynthesisInput lib (strip s) = Inr i \<and>
            (VoiceSelectionParams lib language_code voice = Inl e \<or>
             (\<exists>v. VoiceSelectionParams lib language_code voice = Inr v \<and>
                (AudioConfig lib MP3 (JFloat 1 0) (JFloat 0 0) (JFloat 0 0) = Inl e \<or>
                 (\<exists>a. AudioConfig lib MP3 (JFloat 1 0) (JFloat 0 0) (JFloat 0 0) = Inr a \<and>
                    client_synthesize_speech c i v a = Inl e)))))"
  shows
    "(str_in (lit ''PERMISSION_DENIED'') e \<longrightarrow>
        returned (text_to_speech (Some c) lib (Inr (JObj kvs)) io files) =
          JsonResponse 403 (error_body (lit
            ''Permission denied. Please check your Google Cloud credentials and API access.''))) \<and>
     (\<not> str_in (lit ''PERMISSION_DENIED'') e \<and> str_in (lit ''INVALID_ARGUMENT'') e \<longrightarrow>
        returned (text_to_speech (Some c) lib (Inr (JObj kvs)) io files) =
          JsonResponse 400 (error_body (lit ''Invalid request parameters: '' @ e))) \<and>
     (\<not> str_in (lit ''PERMISSION_DENIED'') e \<and> \<not> str_in (lit ''INVALID_ARGUMENT'') e \<and>
      str_in (lit ''UNIMPLEMENTED'') e \<longrightarrow>
        returned (text_to_speech (Some c) lib (Inr (JObj kvs)) io files) =
          JsonResponse 503 (error_body (lit
            ''TTS service is currently unavailable. Please try again later.''))) \<and>
     (\<not> str_in (lit ''PERMISSION_DENIED'') e \<and> \<not> str_in (lit ''INVALID_ARGUMENT'') e \<and>
      \<not> str_in (lit ''UNIMPLEMENTED'') e \<longrightarrow>
        returned (text_to_speech (Some c) lib (Inr (JObj kvs)) io files) =
          JsonResponse 500 (error_body (lit ''TTS service error: '' @ e)))"
proof -
  have "tts_try (Some c) lib (Inr (JObj kvs)) io files =
      tts_synthesize c lib io files (strip s) language_code voice"
    using assms(1-6) by (simp add: tts_try_valid)
  moreover from assms(7)
  have "returned (tts_synthesize c lib io files (strip s) language_code voice) = Inl e"
    by (auto simp: tts_synthesize_not_built tts_synthesize_provider_raises)
  ultimately have "returned (tts_try (Some c) lib (Inr (JObj kvs)) io files) = Inl e"
    by simp
  then show ?thesis
    by (simp add: text_to_speech_sel tts_except_def)
qed

theorem tts_provider_error_status_witness:
  "returned (text_to_speech (Some (raising_client (lit ''403 PERMISSION_DENIED: API disabled'')))
      checking_texttospeech (Inr hi_body) working_files Map.empty) =
     JsonResponse 403 (error_body (lit
       ''Permission denied. Please check your Google Cloud credentials and API access.'')) \<and>
   returned (text_to_speech (Some (raising_client (lit ''400 INVALID_ARGUMENT: unknown voice'')))
      checking_texttospeech (Inr hi_body) working_files Map.empty) =
     JsonResponse 400 (error_body (lit ''Invalid request parameters: '' @
       lit ''400 INVALID_ARGUMENT: unknown voice'')) \<and>
   returned (text_to_speech (Some (raising_client (lit ''501 UNIMPLEMENTED'')))
      checking_texttospeech (Inr hi_body) working_files Map.empty) =
     JsonResponse 503 (error_body (lit
       ''TTS service is currently unavailable. Please try again later.'')) \<and>
   returned (text_to_speech (Some (raising_client (lit ''503 UNAVAILABLE: connection reset'')))
      checking_texttospeech (Inr hi_body) working_files Map.empty) =
     JsonResponse 500 (error_body (lit ''TTS service error: '' @
       lit ''503 UNAVAILABLE: connection reset''))"
proof -
  have m1: "str_in (lit ''PERMISSION_DENIED'') (lit ''403 PERMISSION_DENIED: API disabled'')"
    by (simp add: lit_def)
  have m2: "\<not> str_in (lit ''PERMISSION_DENIED'') (lit ''400 INVALID_ARGUMENT: unknown voice'')"
    "str_in (lit ''INVALID_ARGUMENT'') (lit ''400 INVALID_ARGUMENT: unknown voice'')"
    by (simp_all add: lit_def)
  have m3: "\<not> str_in (lit ''PERMISSION_DENIED'') (lit ''501 UNIMPLEMENTED'')"
    "\<not> str_in (lit ''INVALID_ARGUMENT'') (lit ''501 UNIMPLEMENTED'')"
    "str_in (lit ''UNIMPLEMENTED'') (lit ''501 UNIMPLEMENTED'')"
    by (simp_all add: lit_def)
  have m4: "\<not> str_in (lit ''PERMISSION_DENIED'') (lit ''503 UNAVAILABLE: connection reset'')"
    "\<not> str_in (lit ''INVALID_ARGUMENT'') (lit ''503 UNAVAILABLE: connection reset'')"
    "\<not> str_in (lit ''UNIMPLEMENTED'') (lit ''503 UNAVAILABLE: connection reset'')"
    by (simp_all add: lit_def)
  note t = tts_provider_error_status [of "[(lit ''text'', JStr (lit ''hi''))]" "lit ''hi''"
      "JStr (lit ''en-US'')" "JStr (lit ''en-US-Wavenet-D'')" checking_texttospeech msg
      "raising_client msg" working_files Map.empty for msg]
  have p: "client_synthesize_speech (raising_client msg) i v a = Inl msg" for msg i v a
    by (simp add: raising_client_def)
  show ?thesis
    unfolding hi_body_def
    using t [of "lit ''403 PERMISSION_DENIED: API disabled''"]
      t [of "lit ''400 INVALID_ARGUMENT: unknown voice''"]
      t [of "lit ''501 UNIMPLEMENTED''"]
      t [of "lit ''503 UNAVAILABLE: connection reset''"]
    by (simp add: dict_get_def sample_keys sample_texts sample_messages p m1 m2 m3 m4)
qed

subsection \<open>No client (C3)\<close>

text \<open>
  C3. When the client is absent, \<open>POST /tts\<close> and \<open>GET /voices\<close> return 503 with a JSON
  error body, whatever \<open>get_json\<close> would return or raise and whatever the query
  parameter is; \<open>/tts\<close> makes no provider call and writes no file.
\<close>

theorem client_absent_503:
  "text_to_speech None lib got_json io files =
     \<lparr> returned = JsonResponse 503 (error_body (lit
         ''Text-to-Speech service is not available. Please check your Google Cloud configuration.'')),
       provider_calls = [], tmp_files = files \<rparr> \<and>
   list_voices None args_language_code =
     JsonResponse 503 (error_body (lit ''Text-to-Speech service is not available''))"
  by (simp add: text_to_speech_def tts_try_def list_voices_def)

subsection \<open>Health (C5)\<close>

text \<open>
  C5. \<open>GET /health\<close> returns 200 with the fields \<open>status\<close>, \<open>service\<close> and
  \<open>tts_available\<close>, and \<open>tts_available\<close> is false exactly when \<open>create_tts_client\<close>
  returned \<open>None\<close> at startup.
\<close>

theorem health_check_tts_available:
  "status (health_check (create_tts_client from_info new_client getenv)) = 200 \<and>
   (\<exists>avail. health_check (create_tts_client from_info new_client getenv) =
       JsonResponse 200
         (JObj [(lit ''status'', JStr (lit ''healthy'')),
                (lit ''service'', JStr (lit ''Flask TTS API'')),
                (lit ''tts_available'', JBool avail)]) \<and>
      (avail = False \<longleftrightarrow> create_tts_client from_info new_client getenv = None))"
  by (simp add: health_check_def)

subsection \<open>Building the client (C6)\<close>

text \<open>
  C6, as stated, says that building fails if and only if a required variable is unset
  or empty. \<open>create_tts_client\<close> also returns \<open>None\<close> when the credentials library or
  the client constructor raises (the \<open>except Exception\<close> of lines 56 to 58): with the
  three variables set and a private key the library rejects, no client is built.
\<close>

theorem create_tts_client_fails_with_all_set:
  "missing_vars full_environ = [] \<and>
   create_tts_client rejecting_credentials connecting full_environ = None"
  by (simp add: missing_vars_full_environ create_tts_client_def rejecting_credentials_def)

text \<open>
  C6, amended. \<open>create_tts_client\<close> returns \<open>None\<close> exactly when a required variable
  (project id, private key, client email) is unset or empty, or
  \<open>from_service_account_info\<close> raises, or \<open>TextToSpeechClient\<close> raises; and whenever it
  returns \<open>None\<close>, \<open>/tts\<close> and \<open>/voices\<close> answer 503 and the provider is not called.
\<close>

theorem create_tts_client_absent:
  "(create_tts_client from_info new_client getenv = None \<longleftrightarrow>
      missing_vars getenv \<noteq> [] \<or>
      (\<exists>e. from_info (build_credentials_info getenv) = Inl e) \<or>
      (\<exists>credentials e. from_info (build_credentials_info getenv) = Inr credentials \<and>
         new_client credentials = Inl e)) \<and>
   (missing_vars getenv \<noteq> [] \<longleftrightarrow>
      (\<exists>var \<in> set required_vars. getenv var = None \<or> getenv var = Some [])) \<and>
   (create_tts_client from_info new_client getenv = None \<longrightarrow>
      status (returned (text_to_speech (create_tts_client from_info new_client getenv)
        lib got_json io files)) = 503 \<and>
      provider_calls (text_to_speech (create_tts_client from_info new_client getenv)
        lib got_json io files) = [] \<and>
      status (list_voices (create_tts_client from_info new_client getenv) args_language_code) = 503)"
proof (intro conjI impI)
  show "create_tts_client from_info new_client getenv = None \<longleftrightarrow>
      missing_vars getenv \<noteq> [] \<or>
      (\<exists>e. from_info (build_credentials_info getenv) = Inl e) \<or>
      (\<exists>credentials e. from_info (build_credentials_info getenv) = Inr credentials \<and>
         new_client credentials = Inl e)"
    by (auto simp: create_tts_client_def Let_def split: sum.splits)
  show "missing_vars getenv \<noteq> [] \<longleftrightarrow>
      (\<exists>var \<in> set required_vars. getenv var = None \<or> getenv var = Some [])"
    by (rule missing_vars_iff)
next
  assume a: "create_tts_client from_info new_client getenv = None"
  show "status (returned (text_to_speech (create_tts_client from_info new_client getenv)
        lib got_json io files)) = 503"
    unfolding a by (simp add: text_to_speech_sel tts_try_def)
  show "provider_calls (text_to_speech (create_tts_client from_info new_client getenv)
        lib got_json io files) = []"
    unfolding a by (simp add: text_to_speech_sel tts_try_def)
  show "status (list_voices (create_tts_client from_info new_client getenv) args_language_code) = 503"
    unfolding a by (simp add: list_voices_def)
qed

theorem create_tts_client_absent_witness:
  "missing_vars partial_environ \<noteq> [] \<and>
   create_tts_client accepting_credentials connecting partial_environ = None \<and>
   status (returned (text_to_speech
     (create_tts_client accepting_credentials connecting partial_environ)
     checking_texttospeech (Inr hi_body) working_files Map.empty)) = 503 \<and>
   status (list_voices
     (create_tts_client accepting_credentials connecting partial_environ) None) = 503"
  using create_tts_client_absent [of accepting_credentials connecting partial_environ
      checking_texttospeech "Inr hi_body" working_files Map.empty None]
  by (simp add: missing_vars_partial_environ)

subsection \<open>Supported languages (C7)\<close>

text \<open>
  C7. \<open>GET /supported-languages\<close> takes no input and returns one fixed response: the
  mapping of 47 language codes to display names, with \<open>total_count\<close> 47, the number of
  entries of the mapping (no code is listed twice).
\<close>

theorem supported_languages_fixed:
  "supported_languages =
     JsonResponse 200
       (JObj [(lit ''languages'',
               JObj (map (\<lambda>(code, display). (lit code, JStr (lit display))) languages)),
              (lit ''total_count'', JInt 47)]) \<and>
   dict_len languages = length languages \<and> length languages = 47 \<and>
   distinct (map fst languages)"
  by (simp add: supported_languages_def dict_len_def languages_def)

subsection \<open>The audio file (C9)\<close>




subsection \<open>The private key (C8)\<close>

text \<open>
  C8. The \<open>private_key\<close> entry of the dictionary handed to
  \<open>from_service_account_info\<close> is the value of \<open>GOOGLE_CLOUD_PRIVATE_KEY\<close>, or the empty
  string when the variable is unset, with every backslash followed by \<open>n\<close> replaced by a
  newline: at each occurrence the result has one newline between the results for what
  precedes and what follows, a string without occurrences is unchanged, and the result
  has no occurrence left. When no required variable is missing, the credentials are
  built from that dictionary.
\<close>

theorem private_key_unescaped:
  "private_key (build_credentials_info getenv) =
     str_replace (backslash # lit ''n'') [newline]
       (case getenv (lit ''GOOGLE_CLOUD_PRIVATE_KEY'') of None \<Rightarrow> [] | Some k \<Rightarrow> k) \<and>
   (getenv (lit ''GOOGLE_CLOUD_PRIVATE_KEY'') = None \<longrightarrow>
      private_key (build_credentials_info getenv) = []) \<and>
   (\<forall>a b. str_replace (backslash # lit ''n'') [newline] (a @ (backslash # lit ''n'') @ b) =
      str_replace (backslash # lit ''n'') [newline] a @ [newline] @
      str_replace (backslash # lit ''n'') [newline] b) \<and>
   (\<forall>s. \<not> str_in (backslash # lit ''n'') s \<longrightarrow>
      str_replace (backslash # lit ''n'') [newline] s = s) \<and>
   (\<forall>s. \<not> str_in (backslash # lit ''n'') (str_replace (backslash # lit ''n'') [newline] s)) \<and>
   (missing_vars getenv = [] \<longrightarrow>
      create_tts_client from_info new_client getenv =
        (case from_info (build_credentials_info getenv) of
           Inl e \<Rightarrow> None
         | Inr credentials \<Rightarrow>
             (case new_client credentials of Inl e \<Rightarrow> None | Inr c \<Rightarrow> Some c)))"
proof -
  have k: "or_empty x = (case x of None \<Rightarrow> [] | Some k \<Rightarrow> k)" for x
    by (cases x) (simp_all add: or_empty_def)
  have "private_key (build_credentials_info getenv) =
     str_replace [92, 110] [newline]
       (case getenv (lit ''GOOGLE_CLOUD_PRIVATE_KEY'') of None \<Rightarrow> [] | Some k \<Rightarrow> k)"
    by (simp add: build_credentials_info_def k escape_pattern)
  moreover have "missing_vars getenv = [] \<longrightarrow>
      create_tts_client from_info new_client getenv =
        (case from_info (build_credentials_info getenv) of
           Inl e \<Rightarrow> None
         | Inr credentials \<Rightarrow>
             (case new_client credentials of Inl e \<Rightarrow> None | Inr c \<Rightarrow> Some c))"
    by (simp add: create_tts_client_def Let_def)
  ultimately show ?thesis
    unfolding escape_pattern
    using unescape_at_occurrence unescape_without_occurrence unescape_leaves_none
    by auto
qed

theorem private_key_unescaped_witness:
  "private_key (build_credentials_info
      [lit ''GOOGLE_CLOUD_PRIVATE_KEY'' \<mapsto>
         lit ''-----BEGIN-----'' @ (backslash # lit ''n'') @ lit ''MIIEvQ'' @ (backslash # lit ''n'') @ []]) =
     lit ''-----BEGIN-----'' @ [newline] @ lit ''MIIEvQ'' @ [newline] \<and>
   private_key (build_credentials_info Map.empty) = [] \<and>
   create_tts_client accepting_credentials connecting full_environ = Some answering_client"
proof -
  let ?esc = "backslash # lit ''n''"
  let ?key = "lit ''-----BEGIN-----'' @ ?esc @ lit ''MIIEvQ'' @ ?esc @ []"
  let ?env = "[lit ''GOOGLE_CLOUD_PRIVATE_KEY'' \<mapsto> ?key]"
  note t = private_key_unescaped [of ?env accepting_credentials connecting]
  note e = private_key_unescaped [of Map.empty accepting_credentials connecting]
  note f = private_key_unescaped [of full_environ accepting_credentials connecting]
  have n: "\<not> str_in ?esc (lit ''-----BEGIN-----'')" "\<not> str_in ?esc (lit ''MIIEvQ'')"
    "\<not> str_in ?esc []"
    by (simp_all add: lit_def backslash_def)
  from t have at: "str_replace ?esc [newline] (a @ ?esc @ b) =
      str_replace ?esc [newline] a @ [newline] @ str_replace ?esc [newline] b" for a b
    by blast
  from t have same: "\<not> str_in ?esc s \<Longrightarrow> str_replace ?esc [newline] s = s" for s
    by blast
  from t have "private_key (build_credentials_info ?env) = str_replace ?esc [newline] ?key"
    by simp
  also have "\<dots> = lit ''-----BEGIN-----'' @ [newline] @ lit ''MIIEvQ'' @ [newline]"
    by (simp only: at same [OF n(1)] same [OF n(2)] same [OF n(3)]) simp
  finally have 1: "private_key (build_credentials_info ?env) =
      lit ''-----BEGIN-----'' @ [newline] @ lit ''MIIEvQ'' @ [newline]" .
  from e have 2: "private_key (build_credentials_info Map.empty) = []"
    by simp
  from f have 3: "create_tts_client accepting_credentials connecting full_environ =
      Some answering_client"
    by (simp add: missing_vars_full_environ accepting_credentials_def connecting_def)
  from 1 2 3 show ?thesis by simp
qed

end
